theory Spec2Isabelle
  imports Complex_Main "HOL-Library.Word"
begin

unbundle bit_operations_syntax

section \<open>Strings\<close>

text \<open>
  A Python \<open>str\<close> is modelled as a list of code points below 256: one \<open>char\<close> is one
  character, whose code is its Unicode code point. Every character the keypad can produce and
  every character of the text of a result lies in this range; the two operator glyphs of the
  keypad are U+00D7 and U+00F7.
\<close>

definition times_glyph :: char where
  "times_glyph = CHR 0xD7"

definition div_glyph :: char where
  "div_glyph = CHR 0xF7"

definition is_digit :: "char \<Rightarrow> bool" where
  \<comment> \<open>the class \<open>\\d\<close> of \<open>re\<close>, restricted to code points below 256\<close>
  "is_digit c = (48 \<le> (of_char c :: nat) \<and> (of_char c :: nat) \<le> 57)"

definition is_space :: "char \<Rightarrow> bool" where
  \<comment> \<open>\<open>str.isspace\<close> and the class \<open>\\s\<close> of \<open>re\<close>, restricted to code points below 256\<close>
  "is_space c = ((of_char c :: nat) \<in> {9, 10, 11, 12, 13, 28, 29, 30, 31, 32, 133, 160})"

definition strip :: "string \<Rightarrow> string" where
  "strip s = rev (dropWhile is_space (rev (dropWhile is_space s)))"

definition digit_char :: "int \<Rightarrow> char" where
  "digit_char i = char_of (48 + i mod 10)"

function decimal :: "int \<Rightarrow> string" where
  \<comment> \<open>the decimal digits of an integer that is not negative\<close>
  "decimal i = (if i < 10 then [digit_char i] else decimal (i div 10) @ [digit_char i])"
  by pat_completeness auto
termination
  by (relation "measure nat") auto

definition str_int :: "int \<Rightarrow> string" where
  \<comment> \<open>\<open>str\<close> of a Python \<open>int\<close>\<close>
  "str_int i = (if i < 0 then CHR ''-'' # decimal (- i) else decimal i)"

section \<open>SHA-256 and the password hash\<close>

text \<open>
  \<open>hashlib.sha256\<close> as specified in FIPS 180-4, on 32-bit words; \<open>str.encode\<close> is UTF-8.
\<close>

type_synonym u32 = "32 word"
type_synonym byte = "8 word"

definition sha256_k :: "u32 list" where
  "sha256_k =
   [1116352408, 1899447441, 3049323471, 3921009573, 961987163, 1508970993, 2453635748, 2870763221,
    3624381080, 310598401, 607225278, 1426881987, 1925078388, 2162078206, 2614888103, 3248222580,
    3835390401, 4022224774, 264347078, 604807628, 770255983, 1249150122, 1555081692, 1996064986,
    2554220882, 2821834349, 2952996808, 3210313671, 3336571891, 3584528711, 113926993, 338241895,
    666307205, 773529912, 1294757372, 1396182291, 1695183700, 1986661051, 2177026350, 2456956037,
    2730485921, 2820302411, 3259730800, 3345764771, 3516065817, 3600352804, 4094571909, 275423344,
    430227734, 506948616, 659060556, 883997877, 958139571, 1322822218, 1537002063, 1747873779,
    1955562222, 2024104815, 2227730452, 2361852424, 2428436474, 2756734187, 3204031479, 3329325298]"

definition sha256_init :: "u32 list" where
  "sha256_init =
   [1779033703, 3144134277, 1013904242, 2773480762, 1359893119, 2600822924, 528734635, 1541459225]"

definition rotr :: "nat \<Rightarrow> u32 \<Rightarrow> u32" where
  "rotr n x = (drop_bit n x) OR (push_bit (32 - n) x)"

definition ch :: "u32 \<Rightarrow> u32 \<Rightarrow> u32 \<Rightarrow> u32" where
  "ch x y z = (x AND y) XOR (NOT x AND z)"

definition maj :: "u32 \<Rightarrow> u32 \<Rightarrow> u32 \<Rightarrow> u32" where
  "maj x y z = (x AND y) XOR (x AND z) XOR (y AND z)"

definition big_sigma0 :: "u32 \<Rightarrow> u32" where
  "big_sigma0 x = rotr 2 x XOR rotr 13 x XOR rotr 22 x"

definition big_sigma1 :: "u32 \<Rightarrow> u32" where
  "big_sigma1 x = rotr 6 x XOR rotr 11 x XOR rotr 25 x"

definition small_sigma0 :: "u32 \<Rightarrow> u32" where
  "small_sigma0 x = rotr 7 x XOR rotr 18 x XOR drop_bit 3 x"

definition small_sigma1 :: "u32 \<Rightarrow> u32" where
  "small_sigma1 x = rotr 17 x XOR rotr 19 x XOR drop_bit 10 x"

text \<open>Message padding: a 1 bit, zero bits up to 56 mod 64 bytes, the bit length in 64 bits.\<close>

definition length_bytes :: "64 word \<Rightarrow> byte list" where
  "length_bytes v = map (\<lambda>i. ucast (drop_bit (8 * (7 - i)) v)) [0..<8]"

definition sha256_pad :: "byte list \<Rightarrow> byte list" where
  "sha256_pad m =
     m @ [0x80] @ replicate ((119 - length m mod 64) mod 64) 0 @ length_bytes (8 * of_nat (length m))"

fun be_words :: "byte list \<Rightarrow> u32 list" where
  "be_words (a # b # c # d # rest) =
     (push_bit 24 (ucast a) OR push_bit 16 (ucast b) OR push_bit 8 (ucast c) OR ucast d) # be_words rest"
| "be_words _ = []"

type_synonym sha_regs = "u32 \<times> u32 \<times> u32 \<times> u32 \<times> u32 \<times> u32 \<times> u32 \<times> u32"

fun sha_step :: "sha_regs \<Rightarrow> u32 \<Rightarrow> u32 \<Rightarrow> sha_regs" where
  "sha_step (a, b, c, d, e, f, g, h) t1 t2 = (t1 + t2, a, b, c, d + t1, e, f, g)"

fun sha_round :: "sha_regs \<Rightarrow> u32 \<Rightarrow> u32 \<Rightarrow> sha_regs" where
  "sha_round (a, b, c, d, e, f, g, h) k w =
     sha_step (a, b, c, d, e, f, g, h) (h + big_sigma1 e + ch e f g + k + w) (big_sigma0 a + maj a b c)"

fun next_word :: "u32 list \<Rightarrow> u32" where
  "next_word (w0 # w1 # rest) = small_sigma1 (rest ! 12) + rest ! 7 + small_sigma0 w1 + w0"
| "next_word _ = 0"

fun rounds :: "u32 list \<Rightarrow> sha_regs \<Rightarrow> u32 list \<Rightarrow> sha_regs" where
  "rounds [] regs win = regs"
| "rounds (k # ks) regs win = rounds ks (sha_round regs k (hd win)) (tl win @ [next_word win])"

fun add_regs :: "u32 list \<Rightarrow> sha_regs \<Rightarrow> u32 list" where
  "add_regs [h0, h1, h2, h3, h4, h5, h6, h7] (a, b, c, d, e, f, g, h) =
     [h0 + a, h1 + b, h2 + c, h3 + d, h4 + e, h5 + f, h6 + g, h7 + h]"
| "add_regs hs _ = hs"

fun load_regs :: "u32 list \<Rightarrow> sha_regs" where
  "load_regs [h0, h1, h2, h3, h4, h5, h6, h7] = (h0, h1, h2, h3, h4, h5, h6, h7)"
| "load_regs _ = (0, 0, 0, 0, 0, 0, 0, 0)"

definition compress :: "u32 list \<Rightarrow> u32 list \<Rightarrow> u32 list" where
  "compress hs block = add_regs hs (rounds sha256_k (load_regs hs) block)"

fun chunks16 :: "u32 list \<Rightarrow> u32 list list" where
  "chunks16 [] = []"
| "chunks16 (x # xs) = take 16 (x # xs) # chunks16 (drop 16 (x # xs))"

definition sha256 :: "byte list \<Rightarrow> u32 list" where
  "sha256 m = foldl compress sha256_init (chunks16 (be_words (sha256_pad m)))"

definition hex_digit :: "u32 \<Rightarrow> char" where
  \<comment> \<open>the hexadecimal digit of the low four bits\<close>
  "hex_digit w = ''0123456789abcdef'' ! unat (w AND 15)"

definition hex_word :: "u32 \<Rightarrow> string" where
  "hex_word w = map (\<lambda>i. hex_digit (drop_bit (4 * (7 - i)) w)) [0..<8]"

definition hexdigest :: "u32 list \<Rightarrow> string" where
  "hexdigest ws = concat (map hex_word ws)"

definition encode :: "string \<Rightarrow> byte list" where
  "encode s = concat (map (\<lambda>c. if of_char c < (128::nat) then [of_char c]
        else [of_nat (192 + of_char c div 64), of_nat (128 + of_char c mod 64)]) s)"

definition hash_password :: "string \<Rightarrow> string" where
  \<comment> \<open>Return SHA-256 hash of the password.\<close>
  "hash_password password = hexdigest (sha256 (encode password))"

definition verify_password :: "string \<Rightarrow> string \<Rightarrow> bool" where
  \<comment> \<open>Check if input_password matches the stored hash.\<close>
  "verify_password stored_hash input_password = (stored_hash = hash_password input_password)"

section \<open>The password prompt\<close>

datatype py_exception =
    AttributeError | OSError | ZeroDivisionError | SyntaxError | TypeError | OverflowError | ValueError

datatype event =
    ShowError string string
  | ShowWarning string string
  | CallbackInvoked
  | FlashEntry
  | Uncaught py_exception

text \<open>
  The fields of \<open>PasswordWindow\<close> that \<open>verify\<close> reads and writes. \<open>entry\<close> is the text
  of the entry widget, \<open>attempt_label\<close> the text of the canvas item of that name,
  \<open>destroyed\<close> whether \<open>destroy\<close> has been called, and \<open>log\<close> the effects on the rest of
  the program in the order they happen: dialogs, the success callback, the scheduled flash of
  the entry, and an exception that leaves the event handler.
\<close>

record password_window =
  stored_hash :: string
  max_attempts :: int
  attempts :: int
  entry :: string
  attempt_label :: string
  destroyed :: bool
  log :: "event list"

definition attempts_text :: "int \<Rightarrow> string" where
  "attempts_text remaining = str_int remaining @ '' attempts remaining''"

definition PasswordWindow :: "string \<Rightarrow> int \<Rightarrow> password_window" where
  \<comment> \<open>\<open>PasswordWindow.__init__\<close>\<close>
  "PasswordWindow hash maxa =
     \<lparr>stored_hash = hash, max_attempts = maxa, attempts = 0, entry = [],
      attempt_label = attempts_text (maxa - 0), destroyed = False, log = []\<rparr>"

definition emit :: "event \<Rightarrow> password_window \<Rightarrow> password_window" where
  "emit e w = w\<lparr>log := log w @ [e]\<rparr>"

definition destroy :: "password_window \<Rightarrow> password_window" where
  "destroy w = w\<lparr>destroyed := True\<rparr>"

text \<open>
  \<open>verify\<close> calls \<open>self.itemconfig(self.attempt_label, text=...)\<close>. \<open>itemconfig\<close> is a method
  of \<open>tk.Canvas\<close>, where it sets the text of the item. \<open>PasswordWindow\<close> derives from
  \<open>tk.Toplevel\<close>, which has no attribute of that name, and neither the class nor
  \<open>__init__\<close> adds one: the lookup raises \<open>AttributeError\<close>.
\<close>

definition canvas_itemconfig :: "string \<Rightarrow> password_window \<Rightarrow> py_exception + password_window" where
  "canvas_itemconfig text w = Inr (w\<lparr>attempt_label := text\<rparr>)"

definition toplevel_itemconfig :: "string \<Rightarrow> password_window \<Rightarrow> py_exception + password_window" where
  "toplevel_itemconfig text w = Inl AttributeError"

definition verify_with ::
  "(string \<Rightarrow> password_window \<Rightarrow> py_exception + password_window) \<Rightarrow> password_window \<Rightarrow> password_window" where
  \<comment> \<open>the body of \<open>PasswordWindow.verify\<close>, for a given meaning of \<open>self.itemconfig\<close>\<close>
  "verify_with itemconfig w0 =
     (let password = entry w0;
          w = w0\<lparr>attempts := attempts w0 + 1\<rparr>;
          remaining = max_attempts w - attempts w
      in if verify_password (stored_hash w) password
         then destroy (emit CallbackInvoked w)
         else (case itemconfig (attempts_text remaining) (emit FlashEntry w) of
                 Inl e \<Rightarrow> emit (Uncaught e) (emit FlashEntry w)
               | Inr w' \<Rightarrow>
                   if remaining = 0
                   then destroy (emit (ShowError ''Access Denied'' ''Too many failed attempts.'') w')
                   else (emit (ShowWarning ''Wrong Password''
                           (''Wrong password! '' @ str_int remaining @ '' attempts remaining.'')) w')
                        \<lparr>entry := []\<rparr>))"

definition verify :: "password_window \<Rightarrow> password_window" where
  \<comment> \<open>\<open>PasswordWindow.verify\<close>: \<open>self\<close> is a \<open>tk.Toplevel\<close>\<close>
  "verify = verify_with toplevel_itemconfig"

definition cancel :: "password_window \<Rightarrow> password_window" where
  \<comment> \<open>the Cancel button and the close box: \<open>self.destroy\<close>\<close>
  "cancel w = destroy w"

text \<open>
  A session of the prompt: the user types a password and presses Unlock, again and again.
  A destroyed window receives no more events.
\<close>

definition submit_with ::
  "(string \<Rightarrow> password_window \<Rightarrow> py_exception + password_window) \<Rightarrow> string \<Rightarrow> password_window \<Rightarrow> password_window" where
  "submit_with itemconfig password w =
     (if destroyed w then w else verify_with itemconfig (w\<lparr>entry := password\<rparr>))"

definition submit :: "string \<Rightarrow> password_window \<Rightarrow> password_window" where
  "submit password w = (if destroyed w then w else verify (w\<lparr>entry := password\<rparr>))"

fun submit_all :: "string list \<Rightarrow> password_window \<Rightarrow> password_window" where
  "submit_all [] w = w"
| "submit_all (p # ps) w = submit_all ps (submit p w)"

fun submit_all_with ::
  "(string \<Rightarrow> password_window \<Rightarrow> py_exception + password_window) \<Rightarrow> string list \<Rightarrow> password_window \<Rightarrow> password_window" where
  "submit_all_with ic [] w = w"
| "submit_all_with ic (p # ps) w = submit_all_with ic ps (submit_with ic p w)"

definition callbacks :: "password_window \<Rightarrow> nat" where
  "callbacks w = length (filter (\<lambda>e. e = CallbackInvoked) (log w))"

text \<open>
  The states of the gate, read off a prompt: it is open until it is destroyed; destroyed
  after the callback it has granted access, destroyed otherwise it is back to idle.
\<close>

datatype gate = Idle | PromptOpen | Granted

definition gate_of :: "password_window \<Rightarrow> gate" where
  "gate_of w = (if \<not> destroyed w then PromptOpen
                else if CallbackInvoked \<in> set (log w) then Granted else Idle)"

definition attempts_exhausted :: "password_window \<Rightarrow> bool" where
  "attempts_exhausted w = (ShowError ''Access Denied'' ''Too many failed attempts.'' \<in> set (log w))"

section \<open>The hidden folder and the application\<close>

text \<open>
  What the program sees of the file system: whether \<open>.secret_folder\<close> exists, the content of
  \<open>.secret_folder/.password\<close> if that file exists, and whether creating the folder, writing
  the file and reading it succeed when the program tries.
\<close>

record filesystem =
  folder_exists :: bool
  password_file :: "string option"
  makedirs_ok :: bool
  write_ok :: bool
  read_ok :: bool

definition DEFAULT_PASSWORD :: string where
  "DEFAULT_PASSWORD = ''subscribe''"

definition secret_code :: string where
  "secret_code = [CHR ''6'', CHR ''9'', div_glyph, CHR ''6'', CHR ''9'']"

definition create_hidden_folder :: "filesystem \<Rightarrow> bool \<times> filesystem \<times> event list" where
  \<comment> \<open>the first component tells whether the folder name is returned (\<open>None\<close> otherwise)\<close>
  "create_hidden_folder f =
     (if \<not> folder_exists f
      then (if makedirs_ok f then (True, f\<lparr>folder_exists := True\<rparr>, [])
            else (False, f, [ShowError ''Error'' ''Error creating folder'']))
      else (True, f, []))"

definition write_default_hash :: "filesystem \<Rightarrow> filesystem option" where
  \<comment> \<open>\<open>with open(self.PASSWORD_FILE, "w") as f: f.write(hash_password(self.DEFAULT_PASSWORD))\<close>;
      \<open>None\<close> when it raises\<close>
  "write_default_hash f =
     (if write_ok f then Some (f\<lparr>password_file := Some (hash_password DEFAULT_PASSWORD)\<rparr>) else None)"

record app =
  display_var :: string
  fs :: filesystem
  windows :: "password_window list"
  dialogs :: "event list"

definition report :: "event \<Rightarrow> app \<Rightarrow> app" where
  "report e a = a\<lparr>dialogs := dialogs a @ [e]\<rparr>"

definition init_app :: "filesystem \<Rightarrow> app" where
  \<comment> \<open>\<open>CalculatorApp.__init__\<close>: the folder and the password file, then the display at "0"\<close>
  "init_app f =
     (case create_hidden_folder f of
        (folder, f1, es) \<Rightarrow>
          (if folder \<and> password_file f1 = None
           then (case write_default_hash f1 of
                   Some f2 \<Rightarrow> \<lparr>display_var = ''0'', fs = f2, windows = [], dialogs = es\<rparr>
                 | None \<Rightarrow> \<lparr>display_var = ''0'', fs = f1, windows = [],
                             dialogs = es @ [ShowError ''Error'' ''Error creating password file'']\<rparr>)
           else \<lparr>display_var = ''0'', fs = f1, windows = [], dialogs = es\<rparr>))"

text \<open>
  Every write to the display variable runs \<open>check_secret_code\<close> (the trace registered in
  \<open>__init__\<close>), which may run \<open>open_secret_folder\<close>, which calls \<open>clear\<close>, which writes the
  display variable again.
\<close>

function display_var_set :: "string \<Rightarrow> app \<Rightarrow> app"
  and check_secret_code :: "app \<Rightarrow> app"
  and open_secret_folder :: "app \<Rightarrow> app"
  and clear :: "app \<Rightarrow> app"
where
  "display_var_set v a = check_secret_code (a\<lparr>display_var := v\<rparr>)"
| "check_secret_code a =
     (if strip (display_var a) = secret_code then open_secret_folder a else a)"
| "open_secret_folder a =
     (if \<not> folder_exists (fs a)
      then report (ShowError ''Error'' ''Secret folder not found. Please restart the application.'') a
      else (case (if password_file (fs a) = None then write_default_hash (fs a) else Some (fs a)) of
              None \<Rightarrow> report (ShowError ''Error'' ''Error creating password file'') a
            | Some f \<Rightarrow>
                (case (if read_ok f then password_file f else None) of
                   None \<Rightarrow> report (Uncaught OSError) (a\<lparr>fs := f\<rparr>)
                 | Some content \<Rightarrow>
                     (let a' = clear (a\<lparr>fs := f\<rparr>)
                      in a'\<lparr>windows := windows a' @ [PasswordWindow (strip content) 3]\<rparr>))))"
| "clear a = display_var_set ''0'' a"
  by pat_completeness auto
termination
proof (relation "measure (\<lambda>x. case x of
          Inl (Inl (v, a)) \<Rightarrow> (if strip v = secret_code then 6 else 2)
        | Inl (Inr a) \<Rightarrow> (if strip (display_var a) = secret_code then 5 else 1)
        | Inr (Inl a) \<Rightarrow> 4
        | Inr (Inr a) \<Rightarrow> 3)")
  have "strip ''0'' \<noteq> secret_code"
    by (simp add: strip_def secret_code_def is_space_def)
  then show "\<And>a. (Inl (Inl (''0'', a)), Inr (Inr a)) \<in> measure (\<lambda>x. case x of
          Inl (Inl (v, a)) \<Rightarrow> (if strip v = secret_code then 6 else 2)
        | Inl (Inr a) \<Rightarrow> (if strip (display_var a) = secret_code then 5 else 1)
        | Inr (Inl a) \<Rightarrow> 4
        | Inr (Inr a) \<Rightarrow> 3)"
    by simp
qed auto

fun contains :: "string \<Rightarrow> string \<Rightarrow> bool" where
  \<comment> \<open>Python's \<open>sub in s\<close> on strings: \<open>sub\<close> occurs in \<open>s\<close> as a substring\<close>
  "contains [] sub = (sub = [])"
| "contains (c # cs) sub = (take (length sub) (c # cs) = sub \<or> contains cs sub)"

definition operator_chars :: string where
  "operator_chars = [CHR ''+'', CHR ''-'', times_glyph, div_glyph, CHR ''('', CHR '')'']"

definition append_to_display :: "string \<Rightarrow> app \<Rightarrow> app" where
  \<comment> \<open>Append character to calculator display.\<close>
  "append_to_display text a =
     (let current = display_var a;
          a1 = (if current = ''0'' \<and> \<not> contains operator_chars text
                then display_var_set [] a else a)
      in display_var_set (display_var a1 @ text) a1)"

section \<open>Python's numbers\<close>

text \<open>
  A Python \<open>float\<close> is an IEEE 754 binary64 value. A finite value is kept as the rational it
  denotes, negative zero apart; an operation is the exact operation on rationals followed by
  rounding to the nearest binary64 value, ties to even.
\<close>

datatype pyfloat = Finite rat | NegZero | PosInf | NegInf | NaN

function bit_length :: "int \<Rightarrow> int" where
  \<comment> \<open>the number of binary digits of a positive integer\<close>
  "bit_length n = (if n \<le> 0 then 0 else 1 + bit_length (n div 2))"
  by pat_completeness auto
termination
  by (relation "measure nat") auto

definition pow2 :: "int \<Rightarrow> rat" where
  "pow2 e = (if 0 \<le> e then 2 ^ nat e else 1 / 2 ^ nat (- e))"

definition floor_log2 :: "int \<Rightarrow> int \<Rightarrow> int" where
  \<comment> \<open>for \<open>n > 0\<close> and \<open>d > 0\<close>: the \<open>e\<close> with \<open>2 ^ e \<le> n / d < 2 ^ (e + 1)\<close>\<close>
  "floor_log2 n d =
     (if d * 2 ^ nat (bit_length n - bit_length d)
           \<le> n * 2 ^ nat (bit_length d - bit_length n)
      then bit_length n - bit_length d
      else bit_length n - bit_length d - 1)"

definition round_half_even_div :: "int \<Rightarrow> int \<Rightarrow> int" where
  \<comment> \<open>for \<open>d > 0\<close>: the integer nearest to \<open>n / d\<close>, ties to even\<close>
  "round_half_even_div n d =
     (if 2 * (n mod d) < d then n div d
      else if d < 2 * (n mod d) then n div d + 1
      else if even (n div d) then n div d else n div d + 1)"

definition round_half_even :: "rat \<Rightarrow> int" where
  "round_half_even x = round_half_even_div (fst (quotient_of x)) (snd (quotient_of x))"

definition signed_zero :: "bool \<Rightarrow> pyfloat" where
  "signed_zero negative = (if negative then NegZero else Finite 0)"

definition signed_inf :: "bool \<Rightarrow> pyfloat" where
  "signed_inf negative = (if negative then NegInf else PosInf)"

definition ulp_exponent :: "int \<Rightarrow> int \<Rightarrow> int" where
  \<comment> \<open>the exponent of the unit in the last place of \<open>n / d\<close>: 53 bits of precision, and
      not below the exponent of the subnormal numbers\<close>
  "ulp_exponent n d = max (floor_log2 n d - 52) (- 1074)"

definition scaled_round :: "int \<Rightarrow> int \<Rightarrow> int \<Rightarrow> int" where
  \<comment> \<open>\<open>n / d\<close> in units of \<open>2 ^ e\<close>, rounded to an integer\<close>
  "scaled_round n d e = round_half_even_div (n * 2 ^ nat (- e)) (d * 2 ^ nat e)"

definition pack :: "bool \<Rightarrow> int \<Rightarrow> int \<Rightarrow> pyfloat" where
  \<comment> \<open>the float of sign \<open>negative\<close> and magnitude \<open>m * 2 ^ e\<close>: infinite from \<open>2 ^ 1024\<close> on\<close>
  "pack negative m e =
     (if 1024 < bit_length m + e then signed_inf negative
      else if m = 0 then signed_zero negative
      else Finite ((if negative then - 1 else 1) * of_int m * pow2 e))"

definition round_fraction :: "bool \<Rightarrow> int \<Rightarrow> int \<Rightarrow> pyfloat" where
  \<comment> \<open>for \<open>n > 0\<close> and \<open>d > 0\<close>: \<open>n / d\<close> rounded to the nearest float, with the sign given\<close>
  "round_fraction negative n d =
     pack negative (scaled_round n d (ulp_exponent n d)) (ulp_exponent n d)"

definition round_double :: "rat \<Rightarrow> pyfloat" where
  "round_double q =
     (if q = 0 then Finite 0
      else round_fraction (q < 0) (fst (quotient_of \<bar>q\<bar>)) (snd (quotient_of \<bar>q\<bar>)))"

fun is_negative :: "pyfloat \<Rightarrow> bool" where
  "is_negative (Finite q) = (q < 0)"
| "is_negative NegZero = True"
| "is_negative NegInf = True"
| "is_negative PosInf = False"
| "is_negative NaN = False"

fun is_zero :: "pyfloat \<Rightarrow> bool" where
  "is_zero (Finite q) = (q = 0)"
| "is_zero NegZero = True"
| "is_zero _ = False"

fun is_inf :: "pyfloat \<Rightarrow> bool" where
  "is_inf PosInf = True"
| "is_inf NegInf = True"
| "is_inf _ = False"

fun float_value :: "pyfloat \<Rightarrow> rat" where
  "float_value (Finite q) = q"
| "float_value _ = 0"

fun float_neg :: "pyfloat \<Rightarrow> pyfloat" where
  "float_neg (Finite q) = (if q = 0 then NegZero else Finite (- q))"
| "float_neg NegZero = Finite 0"
| "float_neg PosInf = NegInf"
| "float_neg NegInf = PosInf"
| "float_neg NaN = NaN"

definition float_add :: "pyfloat \<Rightarrow> pyfloat \<Rightarrow> pyfloat" where
  "float_add x y =
     (if x = NaN \<or> y = NaN then NaN
      else if is_inf x \<and> is_inf y then (if x = y then x else NaN)
      else if is_inf x then x
      else if is_inf y then y
      else if x = NegZero \<and> y = NegZero then NegZero
      else if float_value x + float_value y = 0 then Finite 0
      else round_double (float_value x + float_value y))"

definition float_sub :: "pyfloat \<Rightarrow> pyfloat \<Rightarrow> pyfloat" where
  "float_sub x y = float_add x (float_neg y)"

definition float_mul :: "pyfloat \<Rightarrow> pyfloat \<Rightarrow> pyfloat" where
  "float_mul x y =
     (if x = NaN \<or> y = NaN then NaN
      else if is_inf x \<or> is_inf y
      then (if is_zero x \<or> is_zero y then NaN else signed_inf (is_negative x \<noteq> is_negative y))
      else if float_value x * float_value y = 0 then signed_zero (is_negative x \<noteq> is_negative y)
      else round_double (float_value x * float_value y))"

definition float_div :: "pyfloat \<Rightarrow> pyfloat \<Rightarrow> pyfloat" where
  \<comment> \<open>the divisor is not zero: Python raises before dividing\<close>
  "float_div x y =
     (if x = NaN \<or> y = NaN then NaN
      else if is_inf x then (if is_inf y then NaN else signed_inf (is_negative x \<noteq> is_negative y))
      else if is_inf y \<or> float_value x = 0 then signed_zero (is_negative x \<noteq> is_negative y)
      else round_double (float_value x / float_value y))"

fun is_integer :: "pyfloat \<Rightarrow> bool" where
  \<comment> \<open>\<open>float.is_integer\<close>\<close>
  "is_integer (Finite q) = (of_int \<lfloor>q\<rfloor> = q)"
| "is_integer NegZero = True"
| "is_integer _ = False"

fun int_of_float :: "pyfloat \<Rightarrow> int" where
  \<comment> \<open>\<open>int(x)\<close> for a finite float: truncation towards zero\<close>
  "int_of_float (Finite q) = (if q < 0 then - \<lfloor>- q\<rfloor> else \<lfloor>q\<rfloor>)"
| "int_of_float _ = 0"

fun round_ndigits :: "nat \<Rightarrow> pyfloat \<Rightarrow> pyfloat" where
  \<comment> \<open>\<open>round(x, ndigits)\<close> for \<open>0 \<le> ndigits \<le> 323\<close>: the decimal with that many places
      nearest to the value of \<open>x\<close>, ties to even, converted back to the nearest float\<close>
  "round_ndigits n (Finite q) =
     (if round_half_even (\<bar>q\<bar> * 10 ^ n) = 0 then signed_zero (q < 0)
      else round_double ((if q < 0 then - 1 else 1) * of_int (round_half_even (\<bar>q\<bar> * 10 ^ n)) / 10 ^ n))"
| "round_ndigits n x = x"

subsection \<open>The text of a float\<close>

text \<open>
  \<open>str\<close> of a float is its \<open>repr\<close>: the shortest string of decimal digits that converts back
  to the same float (the nearest to its value among the shortest), in positional notation
  when the decimal point falls within the range \<open>-4 < decpt \<le> 16\<close> and in exponent notation
  otherwise.
\<close>

definition pow10 :: "int \<Rightarrow> rat" where
  "pow10 e = (if 0 \<le> e then 10 ^ nat e else 1 / 10 ^ nat (- e))"

definition num_digits :: "int \<Rightarrow> int" where
  \<comment> \<open>the number of decimal digits of a positive integer\<close>
  "num_digits n = (if n \<le> 0 then 0 else int (length (decimal n)))"

definition decimal_point :: "rat \<Rightarrow> int" where
  \<comment> \<open>for \<open>a > 0\<close>: the \<open>d\<close> with \<open>10 ^ (d - 1) \<le> a < 10 ^ d\<close>\<close>
  "decimal_point a =
     (if 1 \<le> a then num_digits \<lfloor>a\<rfloor>
      else 1 - num_digits (\<lceil>1 / a\<rceil> - 1))"

definition candidate :: "rat \<Rightarrow> int \<Rightarrow> nat \<Rightarrow> int option" where
  \<comment> \<open>the multiple of \<open>10 ^ (decpt - n)\<close> just below or just above \<open>a\<close> that converts back
      to \<open>a\<close>; the nearer one, ties to even, when both do\<close>
  "candidate a decpt n =
     (let s = pow10 (decpt - int n);
          lo = \<lfloor>a / s\<rfloor>;
          ok_lo = (round_double (of_int lo * s) = Finite a);
          ok_hi = (round_double (of_int (lo + 1) * s) = Finite a)
      in if ok_lo \<and> ok_hi
         then (if a - of_int lo * s < of_int (lo + 1) * s - a then Some lo
               else if of_int (lo + 1) * s - a < a - of_int lo * s then Some (lo + 1)
               else if even lo then Some lo else Some (lo + 1))
         else if ok_lo then Some lo
         else if ok_hi then Some (lo + 1)
         else None)"

fun shortest_digits :: "nat \<Rightarrow> nat \<Rightarrow> rat \<Rightarrow> int \<Rightarrow> (int \<times> nat) option" where
  "shortest_digits 0 n a decpt = None"
| "shortest_digits (Suc k) n a decpt =
     (case candidate a decpt n of
        Some m \<Rightarrow> Some (m, n)
      | None \<Rightarrow> shortest_digits k (Suc n) a decpt)"

definition strip_zeros :: "string \<Rightarrow> string" where
  \<comment> \<open>trailing zeros removed, the first digit kept\<close>
  "strip_zeros ds = hd ds # rev (dropWhile (\<lambda>c. c = CHR ''0'') (rev (tl ds)))"

definition pad2 :: "string \<Rightarrow> string" where
  "pad2 s = (if length s < 2 then CHR ''0'' # s else s)"

definition format_repr :: "string \<Rightarrow> int \<Rightarrow> string" where
  \<comment> \<open>the digits \<open>ds\<close> with the decimal point after the first \<open>decpt\<close> of them\<close>
  "format_repr ds decpt =
     (if - 4 < decpt \<and> decpt \<le> 16
      then (if decpt \<le> 0 then ''0.'' @ replicate (nat (- decpt)) CHR ''0'' @ ds
            else if int (length ds) \<le> decpt
            then ds @ replicate (nat (decpt - int (length ds))) CHR ''0'' @ ''.0''
            else take (nat decpt) ds @ ''.'' @ drop (nat decpt) ds)
      else hd ds # (if 1 < length ds then CHR ''.'' # tl ds else [])
           @ ''e'' @ (if decpt - 1 < 0 then ''-'' else ''+'') @ pad2 (decimal \<bar>decpt - 1\<bar>))"

definition repr_positive :: "rat \<Rightarrow> string option" where
  "repr_positive a =
     (case shortest_digits 17 1 a (decimal_point a) of
        None \<Rightarrow> None
      | Some (m, n) \<Rightarrow>
          Some (format_repr (strip_zeros (decimal m))
                  (decimal_point a - int n + int (length (decimal m)))))"

fun float_str :: "pyfloat \<Rightarrow> string option" where
  \<comment> \<open>\<open>None\<close> for a rational that is no binary64 value\<close>
  "float_str (Finite q) =
     (if q = 0 then Some ''0.0''
      else if q < 0 then map_option (\<lambda>s. CHR ''-'' # s) (repr_positive (- q))
      else repr_positive q)"
| "float_str NegZero = Some ''-0.0''"
| "float_str PosInf = Some ''inf''"
| "float_str NegInf = Some ''-inf''"
| "float_str NaN = Some ''nan''"

section \<open>Python's expressions\<close>

text \<open>
  The values an expression over the characters the display admits can have: integers,
  floats, the empty tuple \<open>()\<close> and \<open>Ellipsis\<close> (written \<open>...\<close>).
\<close>

datatype py_value = PInt int | PFloat pyfloat | PTuple | PEllipsis

text \<open>
  What running a piece of Python gives: a value, an exception, or \<open>Unmodelled\<close> where this
  development does not say what Python does (the power and the floor division of floats,
  which follow the C library; resource limits of the interpreter; layout by whitespace other
  than blanks and tabs).
\<close>

datatype 'a result = Returns 'a | Raises py_exception | Unmodelled

fun bind :: "'a result \<Rightarrow> ('a \<Rightarrow> 'b result) \<Rightarrow> 'b result" where
  "bind (Returns x) f = f x"
| "bind (Raises e) f = Raises e"
| "bind Unmodelled f = Unmodelled"

definition max_str_digits :: nat where
  \<comment> \<open>the default of \<open>sys.get_int_max_str_digits()\<close>\<close>
  "max_str_digits = 4300"

fun py_str :: "py_value \<Rightarrow> string result" where
  \<comment> \<open>\<open>str(result)\<close>; an integer of more digits than the limit is left open (versions of
      Python that have the limit raise \<open>ValueError\<close>, the others print it)\<close>
  "py_str (PInt i) =
     (if max_str_digits < length (decimal \<bar>i\<bar>) then Unmodelled else Returns (str_int i))"
| "py_str (PFloat x) = (case float_str x of Some s \<Rightarrow> Returns s | None \<Rightarrow> Unmodelled)"
| "py_str PTuple = Returns ''()''"
| "py_str PEllipsis = Returns ''Ellipsis''"

subsection \<open>Tokens\<close>

datatype token =
    TInt int | TFloat rat
  | TPlus | TMinus | TStar | TSlash | TDoubleStar | TDoubleSlash
  | TLPar | TRPar | TEllipsis | TDot
  | TBad \<comment> \<open>a token the tokenizer rejects\<close>
  | TOther \<comment> \<open>a character whose treatment is not modelled\<close>

definition digit_value :: "char \<Rightarrow> int" where
  "digit_value c = of_char c - 48"

definition digits_value :: "string \<Rightarrow> int" where
  "digits_value ds = foldl (\<lambda>n c. 10 * n + digit_value c) 0 ds"

definition int_token :: "string \<Rightarrow> token" where
  \<comment> \<open>a run of digits: a decimal integer may start with 0 only if it is all zeros; more
      digits than the conversion limit are left open\<close>
  "int_token ds =
     (if hd ds = CHR ''0'' \<and> (\<exists>c \<in> set ds. c \<noteq> CHR ''0'') then TBad
      else if max_str_digits < length ds then TOther
      else TInt (digits_value ds))"

definition float_token :: "string \<Rightarrow> string \<Rightarrow> token" where
  \<comment> \<open>digits, a point, digits: the decimal number they write\<close>
  "float_token ds fds = TFloat (of_int (digits_value ds) + of_int (digits_value fds) / 10 ^ length fds)"

datatype lex_state =
    Start
  | InInt string
  | InFrac string string
  | AfterStar
  | AfterSlash
  | OneDot
  | TwoDots

definition start_token :: "char \<Rightarrow> token list \<times> lex_state" where
  "start_token c =
     (if is_digit c then ([], InInt [c])
      else if c = CHR ''.'' then ([], OneDot)
      else if c = CHR ''*'' then ([], AfterStar)
      else if c = CHR ''/'' then ([], AfterSlash)
      else if c = CHR ''+'' then ([TPlus], Start)
      else if c = CHR ''-'' then ([TMinus], Start)
      else if c = CHR ''('' then ([TLPar], Start)
      else if c = CHR '')'' then ([TRPar], Start)
      else if c = CHR '' '' \<or> c = CHR 0x09 then ([], Start)
      else ([TOther], Start))"

fun flush :: "lex_state \<Rightarrow> token list" where
  "flush Start = []"
| "flush (InInt ds) = [int_token ds]"
| "flush (InFrac ds fds) = [float_token ds fds]"
| "flush AfterStar = [TStar]"
| "flush AfterSlash = [TSlash]"
| "flush OneDot = [TDot]"
| "flush TwoDots = [TDot, TDot]"

fun lex_step :: "lex_state \<Rightarrow> char \<Rightarrow> token list \<times> lex_state" where
  "lex_step (InInt ds) c =
     (if is_digit c then ([], InInt (ds @ [c]))
      else if c = CHR ''.'' then ([], InFrac ds [])
      else (int_token ds # fst (start_token c), snd (start_token c)))"
| "lex_step (InFrac ds fds) c =
     (if is_digit c then ([], InFrac ds (fds @ [c]))
      else (float_token ds fds # fst (start_token c), snd (start_token c)))"
| "lex_step AfterStar c =
     (if c = CHR ''*'' then ([TDoubleStar], Start)
      else (TStar # fst (start_token c), snd (start_token c)))"
| "lex_step AfterSlash c =
     (if c = CHR ''/'' then ([TDoubleSlash], Start)
      else (TSlash # fst (start_token c), snd (start_token c)))"
| "lex_step OneDot c =
     (if is_digit c then ([], InFrac [] [c])
      else if c = CHR ''.'' then ([], TwoDots)
      else (TDot # fst (start_token c), snd (start_token c)))"
| "lex_step TwoDots c =
     (if c = CHR ''.'' then ([TEllipsis], Start)
      else if is_digit c then ([TDot], InFrac [] [c])
      else (TDot # TDot # fst (start_token c), snd (start_token c)))"
| "lex_step Start c = start_token c"

fun lex :: "lex_state \<Rightarrow> string \<Rightarrow> token list" where
  "lex st [] = flush st"
| "lex st (c # cs) = fst (lex_step st c) @ lex (snd (lex_step st c)) cs"

definition tokenize :: "string \<Rightarrow> token list" where
  "tokenize s = lex Start s"

subsection \<open>Syntax\<close>

datatype binop = Add | Sub | Mult | Div | FloorDiv | Pow

datatype unop = UAdd | USub

datatype expr =
    IntLit int
  | FloatLit rat
  | EllipsisLit
  | EmptyTuple
  | UnaryOp unop expr
  | BinOp expr binop expr
  | Call0 expr \<comment> \<open>\<open>f()\<close>\<close>
  | Call1 expr expr \<comment> \<open>\<open>f(x)\<close>, \<open>f(*x)\<close>, \<open>f(**x)\<close>\<close>

text \<open>
  The grammar of Python expressions, as far as these tokens can reach it:
  \<^verbatim>\<open>
  sum     : sum ('+' | '-') term | term
  term    : term ('*' | '/' | '//') factor | factor
  factor  : ('+' | '-') factor | power
  power   : primary '**' factor | primary
  primary : primary '(' [ ['*' | '**'] sum ] ')' | atom
  atom    : NUMBER | '...' | '(' ')' | '(' sum ')'
  \<close>
  The numeric argument of each function is fuel; running out of it gives \<open>Unmodelled\<close>.
\<close>

definition next_is :: "token \<Rightarrow> token list \<Rightarrow> bool" where
  "next_is t ts = (ts \<noteq> [] \<and> hd ts = t)"

definition close_paren :: "expr \<times> token list \<Rightarrow> (expr \<times> token list) result" where
  "close_paren p = (if next_is TRPar (snd p) then Returns (fst p, tl (snd p)) else Raises SyntaxError)"

type_synonym parsed = "(expr \<times> token list) result"

definition parse_atom :: "(token list \<Rightarrow> parsed) \<Rightarrow> token list \<Rightarrow> parsed" where
  \<comment> \<open>\<open>sub\<close> parses the \<open>sum\<close> between parentheses\<close>
  "parse_atom sub ts =
     (case ts of
        [] \<Rightarrow> Raises SyntaxError
      | t # r \<Rightarrow>
          (case t of
             TInt k \<Rightarrow> Returns (IntLit k, r)
           | TFloat q \<Rightarrow> Returns (FloatLit q, r)
           | TEllipsis \<Rightarrow> Returns (EllipsisLit, r)
           | TLPar \<Rightarrow>
               (if next_is TRPar r then Returns (EmptyTuple, tl r)
                else bind (sub r) close_paren)
           | _ \<Rightarrow> Raises SyntaxError))"

fun trailers :: "(token list \<Rightarrow> parsed) \<Rightarrow> nat \<Rightarrow> expr \<Rightarrow> token list \<Rightarrow> parsed" where
  "trailers sub 0 f ts = Unmodelled"
| "trailers sub (Suc n) f ts =
     (if next_is TLPar ts
      then (if next_is TRPar (tl ts) then trailers sub n (Call0 f) (tl (tl ts))
            else if next_is TStar (tl ts) \<or> next_is TDoubleStar (tl ts)
            then bind (bind (sub (tl (tl ts))) close_paren)
                   (\<lambda>p. trailers sub n (Call1 f (fst p)) (snd p))
            else bind (bind (sub (tl ts)) close_paren)
                   (\<lambda>p. trailers sub n (Call1 f (fst p)) (snd p)))
      else Returns (f, ts))"

fun parse_factor :: "(token list \<Rightarrow> parsed) \<Rightarrow> nat \<Rightarrow> token list \<Rightarrow> parsed" where
  \<comment> \<open>\<open>factor\<close>, with \<open>power\<close> as its last alternative\<close>
  "parse_factor sub 0 ts = Unmodelled"
| "parse_factor sub (Suc n) ts =
     (if next_is TPlus ts
      then bind (parse_factor sub n (tl ts)) (\<lambda>p. Returns (UnaryOp UAdd (fst p), snd p))
      else if next_is TMinus ts
      then bind (parse_factor sub n (tl ts)) (\<lambda>p. Returns (UnaryOp USub (fst p), snd p))
      else bind (bind (parse_atom sub ts) (\<lambda>p. trailers sub n (fst p) (snd p)))
             (\<lambda>p. if next_is TDoubleStar (snd p)
                  then bind (parse_factor sub n (tl (snd p)))
                         (\<lambda>q. Returns (BinOp (fst p) Pow (fst q), snd q))
                  else Returns p))"

fun term_rest :: "(token list \<Rightarrow> parsed) \<Rightarrow> nat \<Rightarrow> expr \<Rightarrow> token list \<Rightarrow> parsed" where
  "term_rest sub 0 l ts = Unmodelled"
| "term_rest sub (Suc n) l ts =
     (if next_is TStar ts
      then bind (parse_factor sub n (tl ts)) (\<lambda>p. term_rest sub n (BinOp l Mult (fst p)) (snd p))
      else if next_is TSlash ts
      then bind (parse_factor sub n (tl ts)) (\<lambda>p. term_rest sub n (BinOp l Div (fst p)) (snd p))
      else if next_is TDoubleSlash ts
      then bind (parse_factor sub n (tl ts)) (\<lambda>p. term_rest sub n (BinOp l FloorDiv (fst p)) (snd p))
      else Returns (l, ts))"

definition parse_term :: "(token list \<Rightarrow> parsed) \<Rightarrow> nat \<Rightarrow> token list \<Rightarrow> parsed" where
  "parse_term sub n ts = bind (parse_factor sub n ts) (\<lambda>p. term_rest sub n (fst p) (snd p))"

fun sum_rest :: "(token list \<Rightarrow> parsed) \<Rightarrow> nat \<Rightarrow> expr \<Rightarrow> token list \<Rightarrow> parsed" where
  "sum_rest sub 0 l ts = Unmodelled"
| "sum_rest sub (Suc n) l ts =
     (if next_is TPlus ts
      then bind (parse_term sub n (tl ts)) (\<lambda>p. sum_rest sub n (BinOp l Add (fst p)) (snd p))
      else if next_is TMinus ts
      then bind (parse_term sub n (tl ts)) (\<lambda>p. sum_rest sub n (BinOp l Sub (fst p)) (snd p))
      else Returns (l, ts))"

fun parse_sum :: "nat \<Rightarrow> token list \<Rightarrow> parsed" where
  "parse_sum 0 ts = Unmodelled"
| "parse_sum (Suc n) ts =
     bind (parse_term (parse_sum n) n ts) (\<lambda>p. sum_rest (parse_sum n) n (fst p) (snd p))"

definition max_tokens :: nat where
  \<comment> \<open>expressions of more tokens are left open: the interpreter's limits on nesting and
      recursion are not modelled\<close>
  "max_tokens = 100"

definition parse_expression :: "token list \<Rightarrow> expr result" where
  "parse_expression ts =
     (if TOther \<in> set ts \<or> max_tokens < length ts then Unmodelled
      else bind (parse_sum (10 * length ts + 10) ts)
             (\<lambda>p. if snd p = [] then Returns (fst p) else Raises SyntaxError))"

subsection \<open>Evaluation\<close>

definition float_of_int :: "int \<Rightarrow> pyfloat result" where
  \<comment> \<open>the conversion of an \<open>int\<close> operand: \<open>OverflowError\<close> beyond the range of floats\<close>
  "float_of_int i =
     (if is_inf (round_double (of_int i)) then Raises OverflowError
      else Returns (round_double (of_int i)))"

definition int_true_divide :: "int \<Rightarrow> int \<Rightarrow> py_value result" where
  \<comment> \<open>\<open>a / b\<close> on integers: the quotient, correctly rounded\<close>
  "int_true_divide a b =
     (if b = 0 then Raises ZeroDivisionError
      else if a = 0 then Returns (PFloat (signed_zero (b < 0)))
      else if is_inf (round_double (of_int a / of_int b)) then Raises OverflowError
      else Returns (PFloat (round_double (of_int a / of_int b))))"

definition max_exponent :: int where
  \<comment> \<open>powers with a larger exponent are left open\<close>
  "max_exponent = 65536"

fun int_binop :: "binop \<Rightarrow> int \<Rightarrow> int \<Rightarrow> py_value result" where
  "int_binop Add a b = Returns (PInt (a + b))"
| "int_binop Sub a b = Returns (PInt (a - b))"
| "int_binop Mult a b = Returns (PInt (a * b))"
| "int_binop Div a b = int_true_divide a b"
| "int_binop FloorDiv a b = (if b = 0 then Raises ZeroDivisionError else Returns (PInt (a div b)))"
| "int_binop Pow a b =
     (if 0 \<le> b \<and> b \<le> max_exponent then Returns (PInt (a ^ nat b)) else Unmodelled)"

fun float_binop :: "binop \<Rightarrow> pyfloat \<Rightarrow> pyfloat \<Rightarrow> py_value result" where
  "float_binop Add x y = Returns (PFloat (float_add x y))"
| "float_binop Sub x y = Returns (PFloat (float_sub x y))"
| "float_binop Mult x y = Returns (PFloat (float_mul x y))"
| "float_binop Div x y =
     (if is_zero y then Raises ZeroDivisionError else Returns (PFloat (float_div x y)))"
| "float_binop FloorDiv x y = (if is_zero y then Raises ZeroDivisionError else Unmodelled)"
| "float_binop Pow x y = Unmodelled"

definition repeat_empty :: "int \<Rightarrow> py_value result" where
  \<comment> \<open>the empty tuple repeated: the count has to fit the platform's index type\<close>
  "repeat_empty n =
     (if - (2 ^ 31) \<le> n \<and> n < 2 ^ 31 then Returns PTuple
      else if n < - (2 ^ 63) \<or> 2 ^ 63 \<le> n then Raises OverflowError
      else Unmodelled)"

fun binary :: "binop \<Rightarrow> py_value \<Rightarrow> py_value \<Rightarrow> py_value result" where
  "binary op (PInt a) (PInt b) = int_binop op a b"
| "binary op (PInt a) (PFloat y) = bind (float_of_int a) (\<lambda>x. float_binop op x y)"
| "binary op (PFloat x) (PInt b) = bind (float_of_int b) (\<lambda>y. float_binop op x y)"
| "binary op (PFloat x) (PFloat y) = float_binop op x y"
| "binary Add PTuple PTuple = Returns PTuple"
| "binary Mult PTuple (PInt n) = repeat_empty n"
| "binary Mult (PInt n) PTuple = repeat_empty n"
| "binary op a b = Raises TypeError"

fun unary :: "unop \<Rightarrow> py_value \<Rightarrow> py_value result" where
  "unary UAdd (PInt i) = Returns (PInt i)"
| "unary UAdd (PFloat x) = Returns (PFloat x)"
| "unary USub (PInt i) = Returns (PInt (- i))"
| "unary USub (PFloat x) = Returns (PFloat (float_neg x))"
| "unary op v = Raises TypeError"

text \<open>
  Operands are evaluated left to right, then the operation is applied; the first exception
  ends the evaluation. No value of these expressions is callable: a call evaluates the callee
  and the argument and raises \<open>TypeError\<close>.
\<close>

fun eval_expr :: "expr \<Rightarrow> py_value result" where
  "eval_expr (IntLit n) = Returns (PInt n)"
| "eval_expr (FloatLit q) = Returns (PFloat (round_double q))"
| "eval_expr EllipsisLit = Returns PEllipsis"
| "eval_expr EmptyTuple = Returns PTuple"
| "eval_expr (UnaryOp op e) = bind (eval_expr e) (unary op)"
| "eval_expr (BinOp l op r) =
     bind (eval_expr l) (\<lambda>a. bind (eval_expr r) (\<lambda>b. binary op a b))"
| "eval_expr (Call0 f) = bind (eval_expr f) (\<lambda>v. Raises TypeError)"
| "eval_expr (Call1 f x) =
     bind (eval_expr f) (\<lambda>v. bind (eval_expr x) (\<lambda>w. Raises TypeError))"

definition py_eval :: "string \<Rightarrow> py_value result" where
  \<comment> \<open>\<open>eval(expression)\<close>\<close>
  "py_eval s = bind (parse_expression (tokenize s)) eval_expr"

section \<open>The evaluator of the calculator\<close>

definition allowed_char :: "char \<Rightarrow> bool" where
  \<comment> \<open>the character class of the pattern in \<open>calculate\<close>\<close>
  "allowed_char c =
     (is_digit c \<or> c = CHR ''+'' \<or> c = CHR ''-'' \<or> c = times_glyph \<or> c = div_glyph
      \<or> c = CHR ''/'' \<or> c = CHR ''('' \<or> c = CHR '')'' \<or> c = CHR ''.'' \<or> is_space c)"

definition re_match :: "string \<Rightarrow> bool" where
  \<comment> \<open>the pattern from the start of the string: one or more characters of the class, then
      the end of the string, which \<open>$\<close> also finds just before a final newline\<close>
  "re_match s =
     (\<exists>k \<in> set [1 ..< Suc (length (takeWhile allowed_char s))].
        drop k s = [] \<or> drop k s = [CHR 0x0A])"

definition replace :: "char \<Rightarrow> char \<Rightarrow> string \<Rightarrow> string" where
  \<comment> \<open>\<open>str.replace\<close> of one character by one character\<close>
  "replace old new s = map (\<lambda>c. if c = old then new else c) s"

definition normalize :: "py_value \<Rightarrow> py_value" where
  "normalize result =
     (case result of
        PFloat x \<Rightarrow> (if is_integer x then PInt (int_of_float x) else PFloat (round_ndigits 10 x))
      | _ \<Rightarrow> result)"

definition present :: "app \<Rightarrow> string result \<Rightarrow> app option" where
  \<comment> \<open>the end of \<open>calculate\<close>: the text of the result goes to the display, an exception to
      its handler. \<open>None\<close> where the evaluation is left open. The text of the exception,
      which the last dialog appends, is left out.\<close>
  "present a outcome =
     (case outcome of
        Returns text \<Rightarrow> Some (display_var_set text a)
      | Raises e \<Rightarrow>
          (if e = ZeroDivisionError
           then Some (clear (report (ShowError ''Error'' ''Division by zero is not allowed'') a))
           else Some (clear (report (ShowError ''Error'' ''Invalid calculation'') a)))
      | Unmodelled \<Rightarrow> None)"

definition calculate :: "app \<Rightarrow> app option" where
  \<comment> \<open>Evaluate the expression.\<close>
  "calculate a =
     (if \<not> re_match (display_var a)
      then Some (clear (report (ShowError ''Error'' ''Invalid characters in expression'') a))
      else present a
             (bind (py_eval (replace div_glyph CHR ''/'' (replace times_glyph CHR ''*'' (display_var a))))
                (\<lambda>result. py_str (normalize result))))"

section \<open>Notions of the specification\<close>

definition glyph_to_operator :: "char \<Rightarrow> char" where
  \<comment> \<open>the substitution as the specification words it: the multiplication and the division
      glyph go to \<open>*\<close> and \<open>/\<close>, every other character passes through unchanged\<close>
  "glyph_to_operator c =
     (if c = times_glyph then CHR ''*'' else if c = div_glyph then CHR ''/'' else c)"


definition display_char :: "char \<Rightarrow> bool" where
  \<comment> \<open>the characters the specification admits in the display: digits, the four operator
      glyphs, parentheses and the decimal point; these are the keys of the keypad\<close>
  "display_char c =
     (is_digit c \<or> c = CHR ''+'' \<or> c = CHR ''-'' \<or> c = times_glyph \<or> c = div_glyph
      \<or> c = CHR ''('' \<or> c = CHR '')'' \<or> c = CHR ''.'')"

definition result_letter :: "char \<Rightarrow> bool" where
  \<comment> \<open>the letters in the text of a result: the exponent mark, \<open>inf\<close>, \<open>nan\<close>, \<open>Ellipsis\<close>\<close>
  "result_letter c = (c \<in> set ''einfaElps'')"






section \<open>Sequences of operations\<close>

datatype operation = Press char | Clear | Equals

fun perform :: "operation \<Rightarrow> app \<Rightarrow> app option" where
  "perform (Press c) a = Some (append_to_display [c] a)"
| "perform Clear a = Some (clear a)"
| "perform Equals a = calculate a"

fun run :: "operation list \<Rightarrow> app \<Rightarrow> app option" where
  "run [] a = Some a"
| "run (x # xs) a = (case perform x a of None \<Rightarrow> None | Some a' \<Rightarrow> run xs a')"

fun keypad_operation :: "operation \<Rightarrow> bool" where
  "keypad_operation (Press c) = display_char c"
| "keypad_operation x = True"

section \<open>Facts about strings and the trigger\<close>

lemma strip_zero: "strip ''0'' \<noteq> secret_code"
  by (simp add: strip_def secret_code_def is_space_def)

lemma strip_short: "length v < 5 \<Longrightarrow> strip v \<noteq> secret_code"
proof -
  have "length (strip v) \<le> length v"
    unfolding strip_def
    by (metis length_dropWhile_le length_rev le_trans)
  moreover have "length secret_code = 5" by (simp add: secret_code_def)
  ultimately show "length v < 5 \<Longrightarrow> strip v \<noteq> secret_code" by auto
qed

lemma contains_single: "contains s [c] = (c \<in> set s)"
  by (induction s) auto

lemma set_other: "strip v \<noteq> secret_code \<Longrightarrow> display_var_set v a = a\<lparr>display_var := v\<rparr>"
  by simp


lemma init_display: "display_var (init_app f) = ''0''"
  by (simp add: init_app_def split: prod.splits option.splits)

lemma strip_secret_code: "strip secret_code = secret_code"
  by (simp add: strip_def secret_code_def is_space_def div_glyph_def)

lemma init_no_folder:
  "init_app \<lparr>folder_exists = False, password_file = None,
       makedirs_ok = False, write_ok = True, read_ok = True\<rparr> =
   \<lparr>display_var = ''0'',
    fs = \<lparr>folder_exists = False, password_file = None,
       makedirs_ok = False, write_ok = True, read_ok = True\<rparr>,
    windows = [], dialogs = [ShowError ''Error'' ''Error creating folder'']\<rparr>"
  by (simp add: init_app_def create_hidden_folder_def)

lemma init_good:
  "init_app \<lparr>folder_exists = False, password_file = None,
       makedirs_ok = True, write_ok = True, read_ok = True\<rparr> =
   \<lparr>display_var = ''0'',
    fs = \<lparr>folder_exists = True, password_file = Some (hash_password DEFAULT_PASSWORD),
       makedirs_ok = True, write_ok = True, read_ok = True\<rparr>,
    windows = [], dialogs = []\<rparr>"
  by (simp add: init_app_def create_hidden_folder_def write_default_hash_def)

section \<open>The keypad\<close>

lemma set_secret:
  assumes "strip v = secret_code" and "folder_exists (fs a)"
    and "password_file (fs a) = Some content" and "read_ok (fs a)"
  shows "display_var_set v a =
           a\<lparr>display_var := ''0'', windows := windows a @ [PasswordWindow (strip content) 3]\<rparr>"
  using assms strip_zero by (simp add: Let_def)

lemma append_fresh:
  assumes "display_var a = ''0''" and "c \<notin> set operator_chars"
  shows "append_to_display [c] a = a\<lparr>display_var := [c]\<rparr>"
proof -
  have e: "strip [] \<noteq> secret_code" using strip_short [of "[]"] by simp
  have s: "strip [c] \<noteq> secret_code" using strip_short [of "[c]"] by simp
  show ?thesis
    using assms e s
    by (simp add: append_to_display_def contains_single Let_def set_other
        del: display_var_set.simps check_secret_code.simps)
qed

lemma append_write:
  assumes "\<not> (display_var a = ''0'' \<and> c \<notin> set operator_chars)"
  shows "append_to_display [c] a = display_var_set (display_var a @ [c]) a"
  using assms
  by (auto simp add: append_to_display_def contains_single Let_def
      simp del: display_var_set.simps check_secret_code.simps)


lemma not_operator: "CHR ''6'' \<notin> set operator_chars" "CHR ''9'' \<notin> set operator_chars"
  by (simp_all add: operator_chars_def times_glyph_def div_glyph_def)

lemma keys_to_secret_code:
  fixes f :: filesystem
  assumes "folder_exists f" and "password_file f = Some content" and "read_ok f"
  shows "append_to_display ''6'' (append_to_display [div_glyph] (append_to_display ''9''
           (append_to_display ''6'' \<lparr>display_var = ''0'', fs = f, windows = [], dialogs = []\<rparr>)))
         = \<lparr>display_var = [CHR ''6'', CHR ''9'', div_glyph, CHR ''6''], fs = f, windows = [], dialogs = []\<rparr>"
    and "append_to_display ''9'' \<lparr>display_var = [CHR ''6'', CHR ''9'', div_glyph, CHR ''6''],
            fs = f, windows = [], dialogs = []\<rparr>
         = \<lparr>display_var = ''0'', fs = f, windows = [PasswordWindow (strip content) 3], dialogs = []\<rparr>"
proof -
  let ?s = "\<lambda>d. \<lparr>display_var = d, fs = f, windows = [], dialogs = []\<rparr>"
  have 1: "append_to_display ''6'' (?s ''0'') = ?s ''6''"
    using append_fresh [of "?s ''0''" "CHR ''6''"] not_operator by simp
  have 2: "append_to_display ''9'' (?s ''6'') = ?s ''69''"
    using append_write [of "?s ''6''" "CHR ''9''"] set_other [of "''69''" "?s ''6''"]
      strip_short [of "''69''"] by simp
  have 3: "append_to_display [div_glyph] (?s ''69'') = ?s [CHR ''6'', CHR ''9'', div_glyph]"
    using append_write [of "?s ''69''" div_glyph]
      set_other [of "[CHR ''6'', CHR ''9'', div_glyph]" "?s ''69''"]
      strip_short [of "[CHR ''6'', CHR ''9'', div_glyph]"] by simp
  have 4: "append_to_display ''6'' (?s [CHR ''6'', CHR ''9'', div_glyph])
             = ?s [CHR ''6'', CHR ''9'', div_glyph, CHR ''6'']"
    using append_write [of "?s [CHR ''6'', CHR ''9'', div_glyph]" "CHR ''6''"]
      set_other [of "[CHR ''6'', CHR ''9'', div_glyph, CHR ''6'']" "?s [CHR ''6'', CHR ''9'', div_glyph]"]
      strip_short [of "[CHR ''6'', CHR ''9'', div_glyph, CHR ''6'']"] by simp
  show "append_to_display ''6'' (append_to_display [div_glyph] (append_to_display ''9''
           (append_to_display ''6'' (?s ''0''))))
         = ?s [CHR ''6'', CHR ''9'', div_glyph, CHR ''6'']"
    by (simp only: 1 2 3 4)
  have c: "strip [CHR ''6'', CHR ''9'', div_glyph, CHR ''6'', CHR ''9''] = secret_code"
    using strip_secret_code by (simp add: secret_code_def)
  show "append_to_display ''9'' (?s [CHR ''6'', CHR ''9'', div_glyph, CHR ''6''])
         = \<lparr>display_var = ''0'', fs = f, windows = [PasswordWindow (strip content) 3], dialogs = []\<rparr>"
    using append_write [of "?s [CHR ''6'', CHR ''9'', div_glyph, CHR ''6'']" "CHR ''9''"]
      set_secret [of "[CHR ''6'', CHR ''9'', div_glyph, CHR ''6'', CHR ''9'']"
                     "?s [CHR ''6'', CHR ''9'', div_glyph, CHR ''6'']" content] c assms
    by (simp del: display_var_set.simps)
qed

text \<open>
  C10, as stated, fails. With the hidden folder and the password file in place, the keys
  6, 9, \<div>, 6 bring the display to 69\<div>6; the key 9 is then appended by a write that
  completes the secret code, and the display ends as "0", not as 69\<div>69.
\<close>

theorem append_completing_secret_code_counterexample:
  "display_var (append_to_display ''6'' (append_to_display [div_glyph] (append_to_display ''9''
     (append_to_display ''6'' (init_app \<lparr>folder_exists = False, password_file = None,
       makedirs_ok = True, write_ok = True, read_ok = True\<rparr>)))))
     = [CHR ''6'', CHR ''9'', div_glyph, CHR ''6'']
   \<and> display_var (append_to_display ''9'' (append_to_display ''6'' (append_to_display [div_glyph]
     (append_to_display ''9'' (append_to_display ''6'' (init_app \<lparr>folder_exists = False,
       password_file = None, makedirs_ok = True, write_ok = True, read_ok = True\<rparr>))))))
     = ''0''
   \<and> ''0'' \<noteq> [CHR ''6'', CHR ''9'', div_glyph, CHR ''6''] @ ''9''"
proof -
  let ?f = "\<lparr>folder_exists = True, password_file = Some (hash_password DEFAULT_PASSWORD),
       makedirs_ok = True, write_ok = True, read_ok = True\<rparr>"
  have k: "append_to_display ''6'' (append_to_display [div_glyph] (append_to_display ''9''
           (append_to_display ''6'' \<lparr>display_var = ''0'', fs = ?f, windows = [], dialogs = []\<rparr>)))
         = \<lparr>display_var = [CHR ''6'', CHR ''9'', div_glyph, CHR ''6''], fs = ?f, windows = [], dialogs = []\<rparr>"
    by (rule keys_to_secret_code(1) [of ?f "hash_password DEFAULT_PASSWORD"]) simp_all
  have l: "append_to_display ''9'' \<lparr>display_var = [CHR ''6'', CHR ''9'', div_glyph, CHR ''6''],
            fs = ?f, windows = [], dialogs = []\<rparr>
         = \<lparr>display_var = ''0'', fs = ?f,
            windows = [PasswordWindow (strip (hash_password DEFAULT_PASSWORD)) 3], dialogs = []\<rparr>"
    by (rule keys_to_secret_code(2) [of ?f "hash_password DEFAULT_PASSWORD"]) simp_all
  show ?thesis
    by (simp only: init_good k l) simp
qed

text \<open>
  C10, amended. A key \<open>c\<close> pressed while the display is exactly "0", with \<open>c\<close> none of
  + - \<times> \<div> ( ), discards the "0": the display becomes just \<open>c\<close> (so "." at "0" gives ".").
  In every other case \<open>c\<close> is appended to the end of the display, unless the display
  followed by \<open>c\<close> is, trimmed, the secret code. Nothing else of the state changes.
\<close>

theorem append_to_display_char:
  "(display_var a = ''0'' \<and> c \<notin> set operator_chars \<longrightarrow>
      append_to_display [c] a = a\<lparr>display_var := [c]\<rparr>)
   \<and> (\<not> (display_var a = ''0'' \<and> c \<notin> set operator_chars)
        \<and> strip (display_var a @ [c]) \<noteq> secret_code \<longrightarrow>
      append_to_display [c] a = a\<lparr>display_var := display_var a @ [c]\<rparr>)"
  using append_fresh [of a c] append_write [of a c] set_other [of "display_var a @ [c]" a]
  by (simp del: display_var_set.simps)

theorem append_to_display_char_witness:
  "display_var (append_to_display ''.'' (init_app \<lparr>folder_exists = True, password_file = None,
       makedirs_ok = True, write_ok = True, read_ok = True\<rparr>)) = ''.''
   \<and> display_var (append_to_display ''('' (init_app \<lparr>folder_exists = True, password_file = None,
       makedirs_ok = True, write_ok = True, read_ok = True\<rparr>)) = ''0(''"
proof -
  let ?a = "init_app \<lparr>folder_exists = True, password_file = None,
       makedirs_ok = True, write_ok = True, read_ok = True\<rparr>"
  have d: "display_var ?a = ''0''"
    by (rule init_display)
  have dot: "CHR ''.'' \<notin> set operator_chars"
    by (simp add: operator_chars_def times_glyph_def div_glyph_def)
  have par: "CHR ''('' \<in> set operator_chars"
    by (simp add: operator_chars_def)
  have "strip ''0('' \<noteq> secret_code" using strip_short [of "''0(''"] by simp
  then have n: "strip (display_var ?a @ ''('') \<noteq> secret_code"
    by (simp add: d)
  have "append_to_display ''.'' ?a = ?a\<lparr>display_var := ''.''\<rparr>"
    using append_to_display_char [of ?a "CHR ''.''"] d dot by blast
  then have 1: "display_var (append_to_display ''.'' ?a) = ''.''"
    by simp
  have "append_to_display ''('' ?a = ?a\<lparr>display_var := display_var ?a @ ''(''\<rparr>"
    using append_to_display_char [of ?a "CHR ''(''"] par n by blast
  then have 2: "display_var (append_to_display ''('' ?a) = ''0(''"
    by (simp add: d)
  show ?thesis using 1 2 by (rule conjI)
qed

section \<open>The password prompt\<close>

lemma submit_correct:
  assumes "\<not> destroyed w" and "verify_password (stored_hash w) p"
  shows "submit p w = w\<lparr>attempts := attempts w + 1, entry := p, destroyed := True,
                          log := log w @ [CallbackInvoked]\<rparr>"
  using assms by (simp add: submit_def verify_def verify_with_def destroy_def emit_def)

lemma submit_wrong:
  assumes "\<not> destroyed w" and "\<not> verify_password (stored_hash w) p"
  shows "submit p w = w\<lparr>attempts := attempts w + 1, entry := p,
                          log := log w @ [FlashEntry, Uncaught AttributeError]\<rparr>"
  using assms
  by (simp add: submit_def verify_def verify_with_def toplevel_itemconfig_def emit_def)

text \<open>
  C3. In an open prompt, submitting a password whose hash equals the stored hash, whatever
  the number of attempts made so far, takes the gate to \<open>Granted\<close>, invokes the callback
  exactly once more, and destroys the prompt.
\<close>

theorem correct_password_grants:
  assumes "\<not> destroyed w" and "verify_password (stored_hash w) p"
  shows "gate_of (submit p w) = Granted \<and> callbacks (submit p w) = callbacks w + 1
         \<and> destroyed (submit p w)"
  using assms by (simp add: submit_correct gate_of_def callbacks_def)

theorem correct_password_grants_witness:
  "gate_of (submit ''subscribe'' (PasswordWindow (hash_password ''subscribe'') 3)) = Granted
   \<and> callbacks (submit ''subscribe'' (PasswordWindow (hash_password ''subscribe'') 3)) = 1
   \<and> destroyed (submit ''subscribe'' (PasswordWindow (hash_password ''subscribe'') 3))"
  using correct_password_grants [of "PasswordWindow (hash_password ''subscribe'') 3" "''subscribe''"]
  by (simp add: PasswordWindow_def verify_password_def callbacks_def)

section \<open>The stored credential\<close>

text \<open>
  C5. When no password file exists, and the folder exists or can be created, and the file
  can be written, the password file holds after \<open>__init__\<close> exactly the hexadecimal SHA-256
  digest of the default password "subscribe".
\<close>

theorem first_run_stores_default_hash:
  assumes "password_file f = None" and "folder_exists f \<or> makedirs_ok f" and "write_ok f"
  shows "password_file (fs (init_app f)) = Some (hexdigest (sha256 (encode ''subscribe'')))"
  using assms
  by (auto simp add: init_app_def create_hidden_folder_def write_default_hash_def
      DEFAULT_PASSWORD_def hash_password_def)

theorem first_run_stores_default_hash_witness:
  "password_file (fs (init_app \<lparr>folder_exists = False, password_file = None,
       makedirs_ok = True, write_ok = True, read_ok = True\<rparr>))
     = Some (hexdigest (sha256 (encode ''subscribe'')))"
  using first_run_stores_default_hash [of "\<lparr>folder_exists = False, password_file = None,
       makedirs_ok = True, write_ok = True, read_ok = True\<rparr>"]
  by simp

section \<open>The trigger\<close>

text \<open>
  C2, as stated, fails: when the hidden folder could not be created at start-up, the display
  becomes the secret code and no prompt opens, and the display is not reset.
\<close>

theorem secret_code_without_folder_counterexample:
  "strip secret_code = secret_code
   \<and> windows (display_var_set secret_code (init_app \<lparr>folder_exists = False, password_file = None,
       makedirs_ok = False, write_ok = True, read_ok = True\<rparr>)) = []
   \<and> display_var (display_var_set secret_code (init_app \<lparr>folder_exists = False,
       password_file = None, makedirs_ok = False, write_ok = True, read_ok = True\<rparr>)) = secret_code"
  by (simp add: strip_secret_code init_no_folder report_def)

text \<open>
  C2, amended. Whenever the display, trimmed, becomes exactly the secret code while the
  hidden folder exists, the password file exists or can be written, and it can be read, a
  prompt with three attempts is opened on the stored hash and the display is reset to "0".
  No other display value opens a prompt.
\<close>

theorem secret_code_opens_prompt:
  "(strip v = secret_code \<and> folder_exists (fs a)
      \<and> (password_file (fs a) = None \<longrightarrow> write_ok (fs a)) \<and> read_ok (fs a) \<longrightarrow>
      windows (display_var_set v a) = windows a @
        [PasswordWindow (strip (case password_file (fs a) of
                                  Some content \<Rightarrow> content
                                | None \<Rightarrow> hash_password DEFAULT_PASSWORD)) 3]
      \<and> display_var (display_var_set v a) = ''0'')
   \<and> (strip v \<noteq> secret_code \<longrightarrow>
      windows (display_var_set v a) = windows a \<and> display_var (display_var_set v a) = v)"
  using strip_zero
  by (auto simp add: write_default_hash_def Let_def split: option.splits)

theorem secret_code_opens_prompt_witness:
  "windows (display_var_set secret_code (init_app \<lparr>folder_exists = False, password_file = None,
       makedirs_ok = True, write_ok = True, read_ok = True\<rparr>))
     = [PasswordWindow (strip (hash_password DEFAULT_PASSWORD)) 3]
   \<and> display_var (display_var_set secret_code (init_app \<lparr>folder_exists = False,
       password_file = None, makedirs_ok = True, write_ok = True, read_ok = True\<rparr>)) = ''0''
   \<and> windows (display_var_set ''69'' (init_app \<lparr>folder_exists = False, password_file = None,
       makedirs_ok = True, write_ok = True, read_ok = True\<rparr>)) = []"
proof -
  let ?a = "\<lparr>display_var = ''0'',
    fs = \<lparr>folder_exists = True, password_file = Some (hash_password DEFAULT_PASSWORD),
       makedirs_ok = True, write_ok = True, read_ok = True\<rparr>,
    windows = [], dialogs = []\<rparr>"
  have s: "strip ''69'' \<noteq> secret_code" using strip_short [of "''69''"] by simp
  have 1: "windows (display_var_set secret_code ?a)
             = [PasswordWindow (strip (hash_password DEFAULT_PASSWORD)) 3]
           \<and> display_var (display_var_set secret_code ?a) = ''0''"
    using secret_code_opens_prompt [of secret_code ?a] strip_secret_code
    by (simp del: display_var_set.simps)
  have 2: "windows (display_var_set ''69'' ?a) = []"
    using secret_code_opens_prompt [of "''69''" ?a] s
    by (simp del: display_var_set.simps)
  show ?thesis
    using 1 2 by (simp only: init_good) 
qed

section \<open>Validation of the expression\<close>



lemma re_match_all:
  assumes "s \<noteq> []" and "\<forall>c \<in> set s. allowed_char c"
  shows "re_match s"
proof -
  have t: "takeWhile allowed_char s = s"
    using assms(2) by (simp add: takeWhile_eq_all_conv)
  have "length s \<in> set [1 ..< Suc (length (takeWhile allowed_char s))]"
    using assms(1) by (simp add: t Suc_le_eq)
  moreover have "drop (length s) s = []"
    by simp
  ultimately show ?thesis
    unfolding re_match_def by blast
qed




section \<open>Substitution of the glyphs\<close>

lemma replace_glyphs:
  "replace div_glyph CHR ''/'' (replace times_glyph CHR ''*'' s) = map glyph_to_operator s"
  by (auto simp add: replace_def glyph_to_operator_def times_glyph_def div_glyph_def)

text \<open>
  C6. For every display string of permitted characters, what \<open>calculate\<close> presents is what
  the evaluation of the substituted form gives, where the substitution maps the
  multiplication glyph to \<open>*\<close>, the division glyph to \<open>/\<close> and every other character to itself.
\<close>

theorem substitution_purity:
  assumes "re_match (display_var a)"
  shows "calculate a =
           present a (bind (py_eval (map glyph_to_operator (display_var a)))
                        (\<lambda>result. py_str (normalize result)))
         \<and> glyph_to_operator times_glyph = CHR ''*''
         \<and> glyph_to_operator div_glyph = CHR ''/''
         \<and> (\<forall>c. c \<noteq> times_glyph \<and> c \<noteq> div_glyph \<longrightarrow> glyph_to_operator c = c)"
proof -
  have "calculate a =
           present a (bind (py_eval (map glyph_to_operator (display_var a)))
                        (\<lambda>result. py_str (normalize result)))"
    using assms by (simp add: calculate_def replace_glyphs)
  then show ?thesis
    by (simp add: glyph_to_operator_def times_glyph_def div_glyph_def)
qed

theorem substitution_purity_witness:
  "calculate \<lparr>display_var = [CHR ''2'', times_glyph, CHR ''3''],
       fs = \<lparr>folder_exists = True, password_file = None, makedirs_ok = True,
              write_ok = True, read_ok = True\<rparr>,
       windows = [], dialogs = []\<rparr>
   = Some \<lparr>display_var = ''6'',
       fs = \<lparr>folder_exists = True, password_file = None, makedirs_ok = True,
              write_ok = True, read_ok = True\<rparr>,
       windows = [], dialogs = []\<rparr>"
proof -
  let ?a = "\<lparr>display_var = [CHR ''2'', times_glyph, CHR ''3''],
       fs = \<lparr>folder_exists = True, password_file = None, makedirs_ok = True,
              write_ok = True, read_ok = True\<rparr>,
       windows = [], dialogs = []\<rparr>"
  have m: "re_match (display_var ?a)"
    by (simp, rule re_match_all) (simp_all add: allowed_char_def is_digit_def)
  have e: "bind (py_eval (map glyph_to_operator [CHR ''2'', times_glyph, CHR ''3'']))
             (\<lambda>result. py_str (normalize result)) = Returns ''6''"
    by code_simp
  have s: "strip ''6'' \<noteq> secret_code"
    using strip_short [of "''6''"] by simp
  have "calculate ?a = present ?a (Returns ''6'')"
    using substitution_purity [OF m] e by simp
  then show ?thesis
    using s by (simp add: present_def)
qed

section \<open>Division by zero\<close>





end
